theory Spec2Isabelle
  imports Complex_Main
begin

section \<open>Python values and exceptions\<close>

text \<open>
  The script \<^verbatim>\<open>scripts/measurement_update_likelihood_field.py\<close> is embedded function by
  function. Python floats are modelled as real numbers (rounding, overflow and underflow of
  the machine representation are outside the model), Python integers as \<open>int\<close>.
  Every exception the script can raise is a value of \<open>error\<close>; a call that may raise
  returns \<open>error + 'a\<close> with \<open>Inl\<close> for the exception. \<open>FieldNotReady\<close> is the error kind
  the specification names for a distance query before a field exists; the script itself
  has no statement that raises it.
\<close>

datatype error =
    ZeroDivisionError
  | NameError string
  | TypeError
  | IndexError
  | AttributeError string
  | FieldNotReady

text \<open>The subscript \<^verbatim>\<open>xs[i]\<close> on a tuple or list: a subscript from \<open>-len\<close> up to \<open>-1\<close>
  reads from the back, one outside \<open>-len .. len-1\<close> raises \<open>IndexError\<close>.\<close>

definition py_index :: "'a list \<Rightarrow> int \<Rightarrow> error + 'a" where
  "py_index xs i =
     (if 0 \<le> i \<and> i < int (length xs) then Inr (xs ! nat i)
      else if i < 0 \<and> - int (length xs) \<le> i then Inr (xs ! nat (int (length xs) + i))
      else Inl IndexError)"

section \<open>The Gaussian likelihood (lines 18--23)\<close>

text \<open>
  \<^verbatim>\<open>
  def compute_prob_zero_centered_gaussian(dist, sd):
      c = 1.0 / (sd * math.sqrt(2 * math.pi))
      prob = c * math.exp((-math.pow(dist,2))/(2 * math.pow(sd, 2)))
      return prob
  \<close>
  Both divisions raise \<open>ZeroDivisionError\<close> on a zero divisor. The parameter \<open>dist\<close> is
  written \<open>dst\<close>, since \<open>dist\<close> is the metric of the library.
\<close>

definition compute_prob_zero_centered_gaussian :: "real \<Rightarrow> real \<Rightarrow> error + real" where
  "compute_prob_zero_centered_gaussian dst sd =
     (if sd * sqrt (2 * pi) = 0 then Inl ZeroDivisionError
      else
        let c = 1 / (sd * sqrt (2 * pi))
        in if 2 * sd ^ 2 = 0 then Inl ZeroDivisionError
           else Inr (c * exp ((- (dst ^ 2)) / (2 * sd ^ 2))))"

section \<open>Messages, particles and the node\<close>

text \<open>
  The ROS message classes are records with the fields the script reads or writes. Field
  names carry the class as a prefix where the bare name (\<open>x\<close>, \<open>y\<close>, \<open>map\<close>) would hide a
  variable or a library constant. Of \<^verbatim>\<open>LaserScan\<close> the script reads \<^verbatim>\<open>ranges\<close> only.
\<close>

record Point =
  point_x :: real
  point_y :: real
  point_z :: real

record Quaternion =
  quat_x :: real
  quat_y :: real
  quat_z :: real
  quat_w :: real

record Pose =
  position :: Point
  orientation :: Quaternion

record OccupancyGrid =
  grid_width :: nat
  grid_height :: nat
  grid_data :: "int list"

record LaserScan =
  ranges :: "real list"

text \<open>\<^verbatim>\<open>class Particle\<close> (lines 26--30): a pose and a weight \<open>w\<close>.\<close>

record Particle =
  pose :: Pose
  w :: real

subsection \<open>Collaborators outside the script\<close>

text \<open>
  The likelihood field (module \<^verbatim>\<open>likelihood_field\<close>) and the conversions of
  \<^verbatim>\<open>tf.transformations\<close> are imported, not defined, by the script; they are parameters of
  the model. A likelihood field is represented by its method
  \<^verbatim>\<open>get_closest_obstacle_distance(x, y)\<close>, which may raise. A call of
  \<^verbatim>\<open>euler_from_quaternion\<close> is given its list of positional arguments, each a number or
  a sequence of numbers, and may raise; \<^verbatim>\<open>quaternion_from_euler\<close> returns the four
  components that the script reads as \<^verbatim>\<open>q[0]\<close> to \<^verbatim>\<open>q[3]\<close>.
\<close>

type_synonym LikelihoodField = "real \<Rightarrow> real \<Rightarrow> error + real"

datatype pyarg = Num real | Seq "real list"

record ext =
  quaternion_from_euler :: "real \<Rightarrow> real \<Rightarrow> real \<Rightarrow> real \<times> real \<times> real \<times> real"
  euler_from_quaternion :: "pyarg list \<Rightarrow> error + real \<times> real \<times> real"
  new_LikelihoodField :: LikelihoodField

subsection \<open>Global names of the module\<close>

text \<open>
  A name that a method does not assign is resolved, when the statement runs, in the
  globals of the module (and then the builtins, which hold none of the names below). The
  globals are therefore an input of the model. \<open>module_globals\<close> lists what the import,
  \<^verbatim>\<open>def\<close> and \<^verbatim>\<open>class\<close> statements of the script bind. The name \<^verbatim>\<open>node\<close> (bound on line
  167, once \<^verbatim>\<open>__init__\<close> has returned) and the names every module has, such as
  \<^verbatim>\<open>__name__\<close>, are left out; none of them is a name that a method reads.
\<close>

datatype pyval = PyModule | PyClass | PyFunction | PyInts "int list"

type_synonym globals = "string \<Rightarrow> pyval option"

definition module_globals :: globals where
  "module_globals = map_of
     [(''rospy'', PyModule),
      (''PoseStamped'', PyClass), (''PoseWithCovarianceStamped'', PyClass),
      (''PoseArray'', PyClass), (''Pose'', PyClass), (''Point'', PyClass),
      (''Quaternion'', PyClass),
      (''GetMap'', PyClass), (''OccupancyGrid'', PyClass), (''LaserScan'', PyClass),
      (''Header'', PyClass), (''String'', PyClass),
      (''LikelihoodField'', PyClass),
      (''math'', PyModule), (''np'', PyModule),
      (''quaternion_from_euler'', PyFunction), (''euler_from_quaternion'', PyFunction),
      (''compute_prob_zero_centered_gaussian'', PyFunction),
      (''Particle'', PyClass), (''LikelihoodFieldMeasurementUpdate'', PyClass)]"

text \<open>The iterable of a \<^verbatim>\<open>for\<close> statement given by a global name: an unbound name raises
  \<open>NameError\<close>, a module, class or function is not iterable.\<close>

definition iterate_global :: "globals \<Rightarrow> string \<Rightarrow> error + int list" where
  "iterate_global g name =
     (case g name of
        None \<Rightarrow> Inl (NameError name)
      | Some (PyInts idxs) \<Rightarrow> Inr idxs
      | Some _ \<Rightarrow> Inl TypeError)"

subsection \<open>The node object\<close>

text \<open>
  The attributes of \<^verbatim>\<open>LikelihoodFieldMeasurementUpdate\<close>. \<open>likelihood_field\<close> is \<open>None\<close>
  until line 64 has constructed the field; \<open>particles_pub\<close> collects the pose arrays
  published on \<^verbatim>\<open>particlecloud\<close> (their header, a time stamp, is left out).
\<close>

record node =
  initialized :: bool
  map_attr :: OccupancyGrid
  likelihood_field :: "LikelihoodField option"
  particle_cloud :: "Particle list"
  particles_pub :: "Pose list list"

text \<open>\<^verbatim>\<open>publish_particle_cloud\<close> (lines 114--123) and \<^verbatim>\<open>get_map\<close> (lines 109--111).\<close>

definition publish_particle_cloud :: "node \<Rightarrow> node" where
  "publish_particle_cloud s =
     s\<lparr>particles_pub := particles_pub s @ [map pose (particle_cloud s)]\<rparr>"

definition get_map :: "OccupancyGrid \<Rightarrow> node \<Rightarrow> node" where
  "get_map data s = s\<lparr>map_attr := data\<rparr>"

section \<open>Seeding the particle cloud (lines 73--105)\<close>

definition initial_particle_set :: "real list list" where
  "initial_particle_set =
     [[0, 0, 0],
      [- 66 / 10, - 35 / 10, pi],
      [58 / 10, - 5, pi / 2],
      [- 2, 45 / 10, pi * 3 / 2]]"

text \<open>The body of the loop, lines 87--100: the pose of seed \<open>i\<close> with weight 1.0.\<close>

definition new_particle :: "ext \<Rightarrow> nat \<Rightarrow> Particle" where
  "new_particle ex i =
     (case quaternion_from_euler ex 0 0 (initial_particle_set ! i ! 2) of
        (q0, q1, q2, q3) \<Rightarrow>
          \<lparr>pose =
             \<lparr>position =
                \<lparr>point_x = initial_particle_set ! i ! 0,
                 point_y = initial_particle_set ! i ! 1,
                 point_z = 0\<rparr>,
              orientation = \<lparr>quat_x = q0, quat_y = q1, quat_z = q2, quat_w = q3\<rparr>\<rparr>,
           w = 1\<rparr>)"

definition initialize_particle_cloud :: "ext \<Rightarrow> node \<Rightarrow> node" where
  "initialize_particle_cloud ex s =
     publish_particle_cloud
       (foldl (\<lambda>s' i. s'\<lparr>particle_cloud := particle_cloud s' @ [new_particle ex i]\<rparr>)
          (s\<lparr>particle_cloud := []\<rparr>)
          [0..<length initial_particle_set])"

text \<open>
  \<^verbatim>\<open>__init__\<close> (lines 44--70). \<open>unset_node\<close> is the object after line 47 and the two
  \<^verbatim>\<open>Subscriber\<close> registrations: not initialized, no likelihood field yet. The attributes
  \<^verbatim>\<open>map\<close> and \<^verbatim>\<open>particle_cloud\<close>, which do not exist before lines 63 and 66, stand at the
  values those lines give them (an empty grid, an empty list); nothing reads them earlier.
  \<^verbatim>\<open>run\<close> (lines 157--161) only republishes the cloud once a second, and
  \<^verbatim>\<open>Particle.__str__\<close> formats a particle; neither is part of the model.
\<close>

definition unset_node :: node where
  "unset_node =
     \<lparr>initialized = False,
      map_attr = \<lparr>grid_width = 0, grid_height = 0, grid_data = []\<rparr>,
      likelihood_field = None,
      particle_cloud = [],
      particles_pub = []\<rparr>"

definition init :: "ext \<Rightarrow> node" where
  "init ex =
     (initialize_particle_cloud ex
        (unset_node\<lparr>likelihood_field := Some (new_LikelihoodField ex), particle_cloud := []\<rparr>))
     \<lparr>initialized := True\<rparr>"

section \<open>The measurement update (lines 126--155)\<close>

text \<open>Line 132, \<^verbatim>\<open>direction_idxs = range(360)\<close>: a local name that no later line reads.\<close>

definition direction_idxs :: "int list" where
  "direction_idxs = [0..359]"

text \<open>
  Lines 149--153 for one \<^verbatim>\<open>scan_direction\<close>: the factor that is multiplied into \<open>q\<close>.
  \<^verbatim>\<open>
  scan_end_x = particle_x + data.ranges[scan_direction] * np.cos(particle_theta + scan_direction)
  scan_end_y = particle_y + data.ranges[scan_direction] * np.sin(particle_theta + scan_direction)
  dist = self.likelihood_field.get_closest_obstacle_distance(scan_end_x, scan_end_y)
  q *= compute_prob_zero_centered_gaussian(dist, 0.1)
  \<close>
\<close>

definition beam_likelihood ::
  "LikelihoodField option \<Rightarrow> LaserScan \<Rightarrow> real \<Rightarrow> real \<Rightarrow> real \<Rightarrow> int \<Rightarrow> error + real" where
  "beam_likelihood lf data particle_x particle_y particle_theta scan_direction =
     (case py_index (ranges data) scan_direction of
        Inl e \<Rightarrow> Inl e
      | Inr r \<Rightarrow>
          let scan_end_x = particle_x + r * cos (particle_theta + real_of_int scan_direction);
              scan_end_y = particle_y + r * sin (particle_theta + real_of_int scan_direction)
          in (case lf of
                None \<Rightarrow> Inl (AttributeError ''likelihood_field'')
              | Some field \<Rightarrow>
                  (case field scan_end_x scan_end_y of
                     Inl e \<Rightarrow> Inl e
                   | Inr dst \<Rightarrow> compute_prob_zero_centered_gaussian dst (1 / 10))))"

text \<open>The inner loop, lines 148--153, over the values of the iterated collection.\<close>

fun beam_loop ::
  "LikelihoodField option \<Rightarrow> LaserScan \<Rightarrow> real \<Rightarrow> real \<Rightarrow> real \<Rightarrow> int list \<Rightarrow> real
     \<Rightarrow> error + real" where
  "beam_loop lf data particle_x particle_y particle_theta [] q = Inr q"
| "beam_loop lf data particle_x particle_y particle_theta (scan_direction # rest) q =
     (case beam_likelihood lf data particle_x particle_y particle_theta scan_direction of
        Inl e \<Rightarrow> Inl e
      | Inr prob \<Rightarrow> beam_loop lf data particle_x particle_y particle_theta rest (q * prob))"

text \<open>
  The body of the loop over the particles, lines 139--155. The orientation call passes the
  four quaternion components as four positional arguments and takes component \<open>[2]\<close> of the
  result; \<open>q\<close> starts at 1.0; the loop header reads the global name
  \<^verbatim>\<open>cardinal_directions_idxs\<close>; line 155 stores \<open>q\<close> as the weight.
\<close>

definition update_particle ::
  "ext \<Rightarrow> globals \<Rightarrow> LikelihoodField option \<Rightarrow> LaserScan \<Rightarrow> Particle \<Rightarrow> error + Particle" where
  "update_particle ex g lf data particle =
     (let particle_x = point_x (position (pose particle));
          particle_y = point_y (position (pose particle))
      in case euler_from_quaternion ex
                [Num (quat_x (orientation (pose particle))),
                 Num (quat_y (orientation (pose particle))),
                 Num (quat_z (orientation (pose particle))),
                 Num (quat_w (orientation (pose particle)))] of
           Inl e \<Rightarrow> Inl e
         | Inr (roll, pitch, particle_theta) \<Rightarrow>
             (case iterate_global g ''cardinal_directions_idxs'' of
                Inl e \<Rightarrow> Inl e
              | Inr idxs \<Rightarrow>
                  (case beam_loop lf data particle_x particle_y particle_theta idxs 1 of
                     Inl e \<Rightarrow> Inl e
                   | Inr q \<Rightarrow> Inr (particle\<lparr>w := q\<rparr>))))"

text \<open>
  The loop over \<^verbatim>\<open>self.particle_cloud\<close>, line 138. Particles are updated in place, so an
  exception leaves the earlier particles updated and the rest as they were; the result is
  the cloud together with the exception raised, if any.
\<close>

fun particle_loop ::
  "ext \<Rightarrow> globals \<Rightarrow> LikelihoodField option \<Rightarrow> LaserScan \<Rightarrow> Particle list
     \<Rightarrow> Particle list \<times> error option" where
  "particle_loop ex g lf data [] = ([], None)"
| "particle_loop ex g lf data (particle # rest) =
     (case update_particle ex g lf data particle of
        Inl e \<Rightarrow> (particle # rest, Some e)
      | Inr particle' \<Rightarrow>
          (case particle_loop ex g lf data rest of
             (rest', r) \<Rightarrow> (particle' # rest', r)))"

definition robot_scan_received ::
  "ext \<Rightarrow> globals \<Rightarrow> LaserScan \<Rightarrow> node \<Rightarrow> node \<times> error option" where
  "robot_scan_received ex g data s =
     (if \<not> initialized s then (s, None)
      else
        case particle_loop ex g (likelihood_field s) data (particle_cloud s) of
          (cloud, r) \<Rightarrow> (s\<lparr>particle_cloud := cloud\<rparr>, r))"

section \<open>The specification's beam selection\<close>

text \<open>
  The specification describes a scan as a sequence of beams, each a bearing, a range and a
  validity flag, and selects every \<open>stride\<close>-th beam that is valid and within the maximum
  usable range (section 4.2, step 1). \<open>spec_select_beams\<close> is written from those words, to be
  compared with what the script iterates over.
\<close>

record Beam =
  beam_bearing :: real
  beam_range :: real
  beam_valid :: bool

definition spec_select_beams :: "nat \<Rightarrow> real \<Rightarrow> Beam list \<Rightarrow> nat list" where
  "spec_select_beams stride max_range scan =
     filter (\<lambda>i. i mod stride = 0 \<and> beam_valid (scan ! i) \<and> beam_range (scan ! i) \<le> max_range)
       [0..<length scan]"

section \<open>Concrete collaborators and nodes\<close>

text \<open>
  Inputs for concrete runs of the model. \<open>positional_ext\<close> is a set of collaborators whose
  orientation conversion accepts any argument list and reports heading 0, with a field
  that has an obstacle everywhere. \<open>tf_euler_from_quaternion\<close> has the signature that
  \<^verbatim>\<open>tf.transformations\<close> declares, \<^verbatim>\<open>euler_from_quaternion(quaternion, axes='sxyz')\<close>: one
  sequence and an optional second argument, any other argument list being a \<open>TypeError\<close>;
  the conversion of the sequence itself is the parameter \<open>angles\<close>. It is the way
  \<^verbatim>\<open>Particle.__str__\<close> (lines 33--37) calls the function, with one list.
\<close>

definition positional_ext :: ext where
  "positional_ext =
     \<lparr>quaternion_from_euler = (\<lambda>roll pitch yaw. (0, 0, sin (yaw / 2), cos (yaw / 2))),
      euler_from_quaternion = (\<lambda>args. Inr (0, 0, 0)),
      new_LikelihoodField = (\<lambda>x y. Inr 0)\<rparr>"

definition tf_euler_from_quaternion ::
  "(real list \<Rightarrow> real \<times> real \<times> real) \<Rightarrow> pyarg list \<Rightarrow> error + real \<times> real \<times> real" where
  "tf_euler_from_quaternion angles args =
     (case args of
        [Seq quaternion] \<Rightarrow> Inr (angles quaternion)
      | [Seq quaternion, axes] \<Rightarrow> Inr (angles quaternion)
      | _ \<Rightarrow> Inl TypeError)"

definition tf_ext :: ext where
  "tf_ext =
     \<lparr>quaternion_from_euler = (\<lambda>roll pitch yaw. (0, 0, sin (yaw / 2), cos (yaw / 2))),
      euler_from_quaternion = tf_euler_from_quaternion (\<lambda>quaternion. (0, 0, 0)),
      new_LikelihoodField = (\<lambda>x y. Inr 0)\<rparr>"

text \<open>A particle at the origin with weight 0.5, and an initialized node that holds it.\<close>

definition origin_particle :: Particle where
  "origin_particle =
     \<lparr>pose = \<lparr>position = \<lparr>point_x = 0, point_y = 0, point_z = 0\<rparr>,
              orientation = \<lparr>quat_x = 0, quat_y = 0, quat_z = 0, quat_w = 1\<rparr>\<rparr>,
      w = 1 / 2\<rparr>"

definition one_particle_node :: node where
  "one_particle_node =
     \<lparr>initialized = True,
      map_attr = \<lparr>grid_width = 0, grid_height = 0, grid_data = []\<rparr>,
      likelihood_field = Some (\<lambda>x y. Inr 0),
      particle_cloud = [origin_particle],
      particles_pub = []\<rparr>"

text \<open>The argument list of the orientation call at lines 142--145.\<close>

abbreviation orientation_args :: "Particle \<Rightarrow> pyarg list" where
  "orientation_args p \<equiv>
     [Num (quat_x (orientation (pose p))), Num (quat_y (orientation (pose p))),
      Num (quat_z (orientation (pose p))), Num (quat_w (orientation (pose p)))]"

section \<open>Properties of the Gaussian likelihood\<close>

lemma gaussian_returns:
  assumes "sd \<noteq> 0"
  shows "compute_prob_zero_centered_gaussian dst sd =
           Inr (1 / (sd * sqrt (2 * pi)) * exp (- (dst ^ 2) / (2 * sd ^ 2)))"
  using assms by (simp add: compute_prob_zero_centered_gaussian_def Let_def)




section \<open>The beam loop and the particle loop\<close>

lemma beam_likelihood_Inr_iff:
  "beam_likelihood lf data px py th i = Inr pr \<longleftrightarrow>
     (\<exists>r field d. py_index (ranges data) i = Inr r \<and> lf = Some field
        \<and> field (px + r * cos (th + real_of_int i)) (py + r * sin (th + real_of_int i)) = Inr d
        \<and> pr = 1 / ((1 / 10) * sqrt (2 * pi)) * exp (- (d ^ 2) / (2 * (1 / 10) ^ 2)))"
  by (auto simp: beam_likelihood_def Let_def gaussian_returns split: sum.splits option.splits)

lemma beam_loop_Inr_iff:
  "beam_loop lf data px py th idxs q = Inr q' \<longleftrightarrow>
     (\<exists>ps. list_all2 (\<lambda>i pr. beam_likelihood lf data px py th i = Inr pr) idxs ps
        \<and> q' = q * prod_list ps)"
proof (induction idxs arbitrary: q)
  case Nil
  show ?case by auto
next
  case (Cons i idxs)
  show ?case
  proof (cases "beam_likelihood lf data px py th i")
    case (Inl e)
    then show ?thesis
      by (auto simp: list_all2_Cons1)
  next
    case (Inr pr)
    then show ?thesis
      by (auto simp: Cons.IH list_all2_Cons1 mult.assoc)
  qed
qed

lemma list_all2_ex_map:
  assumes "list_all2 (\<lambda>i pr. \<exists>d. Q i d \<and> pr = F d) idxs ps"
  shows "\<exists>ds. list_all2 Q idxs ds \<and> ps = map F ds"
  using assms
proof (induction rule: list_all2_induct)
  case Nil
  show ?case by simp
next
  case (Cons i idxs pr ps)
  then obtain d ds where "Q i d" "pr = F d" "list_all2 Q idxs ds" "ps = map F ds"
    by blast
  then have "list_all2 Q (i # idxs) (d # ds) \<and> pr # ps = map F (d # ds)"
    by simp
  then show ?case
    by (rule exI)
qed

lemma update_particle_euler_Inl:
  assumes "euler_from_quaternion ex (orientation_args p) = Inl e"
  shows "update_particle ex g lf data p = Inl e"
  using assms by (simp add: update_particle_def Let_def)

lemma update_particle_euler_Inr:
  assumes "euler_from_quaternion ex (orientation_args p) = Inr (roll, pitch, heading)"
  shows "update_particle ex g lf data p =
     (case iterate_global g ''cardinal_directions_idxs'' of
        Inl e \<Rightarrow> Inl e
      | Inr idxs \<Rightarrow>
          (case beam_loop lf data (point_x (position (pose p))) (point_y (position (pose p)))
                  heading idxs 1 of
             Inl e \<Rightarrow> Inl e
           | Inr q \<Rightarrow> Inr (p\<lparr>w := q\<rparr>)))"
  using assms by (simp add: update_particle_def Let_def)

lemma update_particle_Inr_iff:
  "update_particle ex g lf data p = Inr p' \<longleftrightarrow>
     (\<exists>roll pitch heading idxs q.
        euler_from_quaternion ex (orientation_args p) = Inr (roll, pitch, heading)
        \<and> iterate_global g ''cardinal_directions_idxs'' = Inr idxs
        \<and> beam_loop lf data (point_x (position (pose p))) (point_y (position (pose p)))
             heading idxs 1 = Inr q
        \<and> p' = p\<lparr>w := q\<rparr>)"
proof (cases "euler_from_quaternion ex (orientation_args p)")
  case (Inl e)
  then show ?thesis
    by (simp add: update_particle_euler_Inl)
next
  case (Inr angles)
  obtain roll pitch heading where angles: "angles = (roll, pitch, heading)"
    by (cases angles)
  show ?thesis
  proof (cases "iterate_global g ''cardinal_directions_idxs''")
    case (Inl e)
    then show ?thesis
      using Inr angles by (simp add: update_particle_euler_Inr)
  next
    case idxs: (Inr idxs)
    show ?thesis
    proof (cases "beam_loop lf data (point_x (position (pose p)))
        (point_y (position (pose p))) heading idxs 1")
      case (Inl e)
      then show ?thesis
        using Inr angles idxs by (simp add: update_particle_euler_Inr)
    next
      case q: (Inr q)
      then show ?thesis
        using Inr angles idxs by (auto simp add: update_particle_euler_Inr)
    qed
  qed
qed

lemma update_particle_no_beams:
  assumes "euler_from_quaternion ex (orientation_args p) = Inr angles"
    and "iterate_global g ''cardinal_directions_idxs'' = Inr []"
  shows "update_particle ex g lf data p = Inr (p\<lparr>w := 1\<rparr>)"
proof -
  obtain roll pitch heading where "angles = (roll, pitch, heading)"
    by (cases angles)
  with assms show ?thesis
    by (simp add: update_particle_euler_Inr)
qed

lemma update_particle_pose:
  "update_particle ex g lf data p = Inr p' \<Longrightarrow> pose p' = pose p"
  by (auto simp: update_particle_def Let_def split: sum.splits prod.splits)

lemma particle_loop_length:
  "length (fst (particle_loop ex g lf data ps)) = length ps"
  by (induction ps) (auto split: sum.splits prod.splits)

lemma particle_loop_pose:
  "map pose (fst (particle_loop ex g lf data ps)) = map pose ps"
  by (induction ps) (auto split: sum.splits prod.splits dest: update_particle_pose)

lemma particle_loop_each:
  "k < length ps \<Longrightarrow>
     fst (particle_loop ex g lf data ps) ! k = ps ! k
     \<or> update_particle ex g lf data (ps ! k) = Inr (fst (particle_loop ex g lf data ps) ! k)"
proof (induction ps arbitrary: k)
  case Nil
  then show ?case by simp
next
  case (Cons p ps)
  show ?case
  proof (cases "update_particle ex g lf data p")
    case (Inl e)
    then show ?thesis by simp
  next
    case (Inr p')
    show ?thesis
    proof (cases k)
      case 0
      with Inr show ?thesis by (simp split: prod.splits)
    next
      case (Suc j)
      with Cons.prems have "j < length ps" by simp
      from Cons.IH [OF this] Inr Suc show ?thesis
        by (auto split: prod.splits)
    qed
  qed
qed

lemma robot_scan_received_single:
  assumes "initialized s" and "particle_cloud s = [p]"
    and "update_particle ex g (likelihood_field s) data p = Inr p'"
  shows "robot_scan_received ex g data s = (s\<lparr>particle_cloud := [p']\<rparr>, None)"
  using assms by (simp add: robot_scan_received_def)

lemma module_globals_unbound:
  "iterate_global module_globals ''cardinal_directions_idxs''
     = Inl (NameError ''cardinal_directions_idxs'')"
  by (simp add: iterate_global_def module_globals_def)

lemma iterate_global_bound:
  "iterate_global (g(name \<mapsto> PyInts idxs)) name = Inr idxs"
  by (simp add: iterate_global_def)

lemma update_particle_unbound:
  "\<exists>e. update_particle ex module_globals lf data p = Inl e
     \<and> (case euler_from_quaternion ex
               [Num (quat_x (orientation (pose p))), Num (quat_y (orientation (pose p))),
                Num (quat_z (orientation (pose p))), Num (quat_w (orientation (pose p)))] of
          Inl e' \<Rightarrow> e = e'
        | Inr angles \<Rightarrow> e = NameError ''cardinal_directions_idxs'')"
  by (auto simp: update_particle_def Let_def module_globals_unbound split: sum.splits prod.splits)

lemma positional_ext_euler:
  "euler_from_quaternion positional_ext args = Inr (0, 0, 0)"
  by (simp add: positional_ext_def)

lemma one_particle_node_fields:
  "initialized one_particle_node"
  "particle_cloud one_particle_node = [origin_particle]"
  "likelihood_field one_particle_node = Some (\<lambda>x y. Inr 0)"
  by (simp_all add: one_particle_node_def)

lemma scan_aborts:
  assumes "initialized s" and "particle_cloud s \<noteq> []"
  shows "\<exists>e. robot_scan_received ex module_globals data s = (s, Some e)
          \<and> (case euler_from_quaternion ex
                    [Num (quat_x (orientation (pose (hd (particle_cloud s))))),
                     Num (quat_y (orientation (pose (hd (particle_cloud s))))),
                     Num (quat_z (orientation (pose (hd (particle_cloud s))))),
                     Num (quat_w (orientation (pose (hd (particle_cloud s)))))] of
               Inl e' \<Rightarrow> e = e'
             | Inr angles \<Rightarrow> e = NameError ''cardinal_directions_idxs'')"
proof -
  from assms(2) obtain p ps where cloud: "particle_cloud s = p # ps"
    by (cases "particle_cloud s") auto
  from update_particle_unbound [of ex "likelihood_field s" data p]
  obtain e where e: "update_particle ex module_globals (likelihood_field s) data p = Inl e"
    and kind: "case euler_from_quaternion ex
               [Num (quat_x (orientation (pose p))), Num (quat_y (orientation (pose p))),
                Num (quat_z (orientation (pose p))), Num (quat_w (orientation (pose p)))] of
          Inl e' \<Rightarrow> e = e'
        | Inr angles \<Rightarrow> e = NameError ''cardinal_directions_idxs''"
    by blast
  have "robot_scan_received ex module_globals data s = (s\<lparr>particle_cloud := p # ps\<rparr>, Some e)"
    using assms(1) e by (simp add: robot_scan_received_def cloud)
  also have "s\<lparr>particle_cloud := p # ps\<rparr> = s"
    using cloud by simp
  finally show ?thesis
    using kind by (auto simp: cloud)
qed

section \<open>Seeding\<close>

text \<open>
  Claim C9. After \<^verbatim>\<open>initialize_particle_cloud\<close>, from any node state and for any conversion
  \<^verbatim>\<open>quaternion_from_euler\<close>, the cloud holds exactly four particles, in the order of the seed
  list \<open>(0, 0, 0)\<close>, \<open>(-6.6, -3.5, \<pi>)\<close>, \<open>(5.8, -5.0, \<pi>/2)\<close>, \<open>(-2.0, 4.5, 3\<pi>/2)\<close>: positions
  \<open>(x, y, 0)\<close>, orientations the conversion of yaw \<open>\<theta>\<close>, every weight 1; it is the cloud of
  the node that \<^verbatim>\<open>__init__\<close> returns.
\<close>

theorem initialize_particle_cloud_seeds:
  "length (particle_cloud (initialize_particle_cloud ex s)) = 4
   \<and> map (\<lambda>p. (point_x (position (pose p)), point_y (position (pose p)),
                 point_z (position (pose p))))
        (particle_cloud (initialize_particle_cloud ex s))
       = [(0, 0, 0), (- 66 / 10, - 35 / 10, 0), (58 / 10, - 5, 0), (- 2, 45 / 10, 0)]
   \<and> map (\<lambda>p. (quat_x (orientation (pose p)), quat_y (orientation (pose p)),
                 quat_z (orientation (pose p)), quat_w (orientation (pose p))))
        (particle_cloud (initialize_particle_cloud ex s))
       = map (quaternion_from_euler ex 0 0) [0, pi, pi / 2, pi * 3 / 2]
   \<and> map w (particle_cloud (initialize_particle_cloud ex s)) = [1, 1, 1, 1]
   \<and> particle_cloud (init ex) = particle_cloud (initialize_particle_cloud ex s)
   \<and> initialized (init ex)"
  by (simp add: initialize_particle_cloud_def init_def publish_particle_cloud_def
      initial_particle_set_def new_particle_def split: prod.splits)

section \<open>Errors of the measurement update\<close>

text \<open>
  Claim C10 says that every scan received after initialization with a non-empty cloud
  raises a name-resolution error before any weight is assigned. The orientation call of
  the first particle runs before the loop header (lines 142--145), so its error, if it
  raises, is the one that ends the update. The statement that holds: the update raises,
  the node is left exactly as it was, and the error is the orientation call's if that
  call raises and \<open>NameError\<close> for \<^verbatim>\<open>cardinal_directions_idxs\<close> otherwise.
\<close>

theorem scan_aborts_before_any_weight:
  assumes "initialized s" and "particle_cloud s \<noteq> []"
  shows "\<exists>e. robot_scan_received ex module_globals data s = (s, Some e)
          \<and> (case euler_from_quaternion ex
                    [Num (quat_x (orientation (pose (hd (particle_cloud s))))),
                     Num (quat_y (orientation (pose (hd (particle_cloud s))))),
                     Num (quat_z (orientation (pose (hd (particle_cloud s))))),
                     Num (quat_w (orientation (pose (hd (particle_cloud s)))))] of
               Inl e' \<Rightarrow> e = e'
             | Inr angles \<Rightarrow> e = NameError ''cardinal_directions_idxs'')"
  using assms by (rule scan_aborts)

theorem scan_aborts_before_any_weight_witness:
  "initialized (init positional_ext) \<and> particle_cloud (init positional_ext) \<noteq> []
   \<and> robot_scan_received positional_ext module_globals \<lparr>ranges = [1]\<rparr> (init positional_ext)
       = (init positional_ext, Some (NameError ''cardinal_directions_idxs''))"
proof -
  have i: "initialized (init positional_ext)"
    by (simp add: init_def)
  have c: "particle_cloud (init positional_ext) \<noteq> []"
    by (simp add: init_def initialize_particle_cloud_def publish_particle_cloud_def
        initial_particle_set_def)
  from scan_aborts_before_any_weight [OF i c, of positional_ext "\<lparr>ranges = [1]\<rparr>"] i c
  show ?thesis
    by (auto simp: positional_ext_def)
qed

text \<open>With a conversion of the declared signature the four positional arguments are a
  \<open>TypeError\<close>, raised before the loop header is reached.\<close>

theorem scan_raises_TypeError_counterexample:
  "initialized (init tf_ext) \<and> particle_cloud (init tf_ext) \<noteq> []
   \<and> snd (robot_scan_received tf_ext module_globals \<lparr>ranges = [1]\<rparr> (init tf_ext))
       = Some TypeError"
proof -
  have i: "initialized (init tf_ext)"
    by (simp add: init_def)
  have c: "particle_cloud (init tf_ext) \<noteq> []"
    by (simp add: init_def initialize_particle_cloud_def publish_particle_cloud_def
        initial_particle_set_def)
  from scan_aborts [OF i c, of tf_ext "\<lparr>ranges = [1]\<rparr>"] i c
  show ?thesis
    by (auto simp: tf_ext_def tf_euler_from_quaternion_def)
qed

text \<open>
  Claim C8 says that the update fails with \<open>FieldNotReady\<close> exactly when no field has been
  built. The script guards the update with \<^verbatim>\<open>self.initialized\<close> instead (lines 129--130),
  and the field is constructed before that flag is set. The statement that holds: while
  the node is not initialized, which includes the time before the field exists, the update
  returns without an error and leaves the node unchanged; \<^verbatim>\<open>__init__\<close> ends with the field
  constructed and the flag set.
\<close>

theorem uninitialized_scan_returns:
  "(\<not> initialized s \<longrightarrow> robot_scan_received ex g data s = (s, None))
   \<and> \<not> initialized unset_node \<and> likelihood_field unset_node = None
   \<and> initialized (init ex) \<and> likelihood_field (init ex) = Some (new_LikelihoodField ex)"
  by (simp add: robot_scan_received_def unset_node_def init_def initialize_particle_cloud_def
      publish_particle_cloud_def initial_particle_set_def)

theorem uninitialized_scan_returns_witness:
  "\<not> initialized unset_node
   \<and> robot_scan_received positional_ext module_globals \<lparr>ranges = [1]\<rparr> unset_node = (unset_node, None)"
  using uninitialized_scan_returns [of unset_node positional_ext module_globals "\<lparr>ranges = [1]\<rparr>"]
  by simp

text \<open>No field, and the update returns normally.\<close>

theorem no_FieldNotReady_counterexample:
  "likelihood_field unset_node = None
   \<and> snd (robot_scan_received positional_ext module_globals \<lparr>ranges = [1]\<rparr> unset_node) = None"
  by (simp add: robot_scan_received_def unset_node_def)

section \<open>Concrete runs of the beam loop\<close>

lemma py_index_0: "py_index [a] 0 = Inr a"
  by (simp add: py_index_def)

lemma beam_likelihood_total_field:
  assumes "py_index (ranges data) i = Inr r"
  shows "beam_likelihood (Some (\<lambda>x y. Inr (f x y))) data px py th i
     = Inr (1 / ((1 / 10) * sqrt (2 * pi))
            * exp (- ((f (px + r * cos (th + real_of_int i)) (py + r * sin (th + real_of_int i))) ^ 2)
                   / (2 * (1 / 10) ^ 2)))"
  using assms by (simp add: beam_likelihood_def Let_def gaussian_returns)

lemma single_beam_run:
  "update_particle positional_ext (module_globals(''cardinal_directions_idxs'' \<mapsto> PyInts [0]))
     (Some (\<lambda>x y. Inr 0)) \<lparr>ranges = [1]\<rparr> origin_particle
   = Inr (origin_particle\<lparr>w := 10 / sqrt (2 * pi)\<rparr>)"
proof -
  have "py_index (ranges \<lparr>ranges = [1::real]\<rparr>) 0 = Inr 1"
    by (simp add: py_index_0)
  from beam_likelihood_total_field [OF this, of "\<lambda>x y. 0"]
  have "beam_likelihood (Some (\<lambda>x y. Inr 0)) \<lparr>ranges = [1]\<rparr> px py th 0 = Inr (10 / sqrt (2 * pi))"
    for px py th
    by simp
  then have "beam_loop (Some (\<lambda>x y. Inr 0)) \<lparr>ranges = [1]\<rparr> px py th [0] 1 = Inr (10 / sqrt (2 * pi))"
    for px py th
    by simp
  then show ?thesis
    by (simp add: update_particle_euler_Inr [OF positional_ext_euler] iterate_global_bound)
qed

lemma single_beam_scan:
  "robot_scan_received positional_ext (module_globals(''cardinal_directions_idxs'' \<mapsto> PyInts [0]))
     \<lparr>ranges = [1]\<rparr> one_particle_node
   = (one_particle_node\<lparr>particle_cloud := [origin_particle\<lparr>w := 10 / sqrt (2 * pi)\<rparr>]\<rparr>, None)"
  by (rule robot_scan_received_single [OF one_particle_node_fields(1,2)])
    (simp add: one_particle_node_fields single_beam_run)

section \<open>What the measurement update changes\<close>

text \<open>
  Claim C7. For every particle set and every scan (and whatever the collaborators and the
  global names are), the measurement update keeps the length and the order of the particle
  cloud and every pose, and changes no other attribute of the node; each particle is
  either left as it was or is the result of updating that particle alone, so no
  normalization across particles takes place.
\<close>

theorem robot_scan_received_frame:
  assumes "robot_scan_received ex g data s = (s', r)"
  shows "length (particle_cloud s') = length (particle_cloud s)
       \<and> map pose (particle_cloud s') = map pose (particle_cloud s)
       \<and> initialized s' = initialized s
       \<and> map_attr s' = map_attr s
       \<and> likelihood_field s' = likelihood_field s
       \<and> particles_pub s' = particles_pub s
       \<and> (\<forall>k < length (particle_cloud s).
            particle_cloud s' ! k = particle_cloud s ! k
            \<or> update_particle ex g (likelihood_field s) data (particle_cloud s ! k)
                = Inr (particle_cloud s' ! k))"
proof (cases "initialized s")
  case False
  with assms have "s' = s"
    by (simp add: robot_scan_received_def)
  then show ?thesis by simp
next
  case True
  define cloud where "cloud = fst (particle_loop ex g (likelihood_field s) data (particle_cloud s))"
  from True assms have s': "s' = s\<lparr>particle_cloud := cloud\<rparr>"
    by (auto simp: robot_scan_received_def cloud_def split: prod.splits)
  have len: "length cloud = length (particle_cloud s)"
    unfolding cloud_def by (rule particle_loop_length)
  have poses: "map pose cloud = map pose (particle_cloud s)"
    unfolding cloud_def by (rule particle_loop_pose)
  have each: "cloud ! k = particle_cloud s ! k
      \<or> update_particle ex g (likelihood_field s) data (particle_cloud s ! k) = Inr (cloud ! k)"
    if "k < length (particle_cloud s)" for k
    unfolding cloud_def using that by (rule particle_loop_each)
  from len poses each show ?thesis
    by (simp add: s')
qed

theorem robot_scan_received_frame_witness:
  "robot_scan_received positional_ext (module_globals(''cardinal_directions_idxs'' \<mapsto> PyInts [0]))
     \<lparr>ranges = [1]\<rparr> one_particle_node
     = (one_particle_node\<lparr>particle_cloud := [origin_particle\<lparr>w := 10 / sqrt (2 * pi)\<rparr>]\<rparr>, None)
   \<and> length (particle_cloud
        (one_particle_node\<lparr>particle_cloud := [origin_particle\<lparr>w := 10 / sqrt (2 * pi)\<rparr>]\<rparr>))
       = length (particle_cloud one_particle_node)
   \<and> map pose (particle_cloud
        (one_particle_node\<lparr>particle_cloud := [origin_particle\<lparr>w := 10 / sqrt (2 * pi)\<rparr>]\<rparr>))
       = map pose (particle_cloud one_particle_node)
   \<and> (0::nat) < length (particle_cloud one_particle_node)
   \<and> update_particle positional_ext
        (module_globals(''cardinal_directions_idxs'' \<mapsto> PyInts [0]))
        (likelihood_field one_particle_node) \<lparr>ranges = [1]\<rparr> (particle_cloud one_particle_node ! 0)
       = Inr (origin_particle\<lparr>w := 10 / sqrt (2 * pi)\<rparr>)"
proof -
  note run = single_beam_scan
  note frame = robot_scan_received_frame [OF run]
  have len: "(0::nat) < length (particle_cloud one_particle_node)"
    by (simp add: one_particle_node_fields)
  have upd: "update_particle positional_ext
        (module_globals(''cardinal_directions_idxs'' \<mapsto> PyInts [0]))
        (likelihood_field one_particle_node) \<lparr>ranges = [1]\<rparr> (particle_cloud one_particle_node ! 0)
       = Inr (origin_particle\<lparr>w := 10 / sqrt (2 * pi)\<rparr>)"
    by (simp add: one_particle_node_fields single_beam_run)
  from run frame len upd show ?thesis
    by (intro conjI) (simp_all only: simp_thms)
qed

section \<open>The update with the module's own globals\<close>

text \<open>
  With the globals that the module binds, the update of a particle never completes, so a
  scan leaves the node as it was. \<open>tf_ext\<close> has the orientation conversion of the declared
  signature, which rejects the four positional arguments of lines 142--145.
\<close>

lemma particle_loop_module:
  "\<exists>r. particle_loop ex module_globals lf data ps = (ps, r)"
proof (cases ps)
  case Nil
  then show ?thesis by simp
next
  case (Cons p rest)
  from update_particle_unbound [of ex lf data p]
  obtain e where "update_particle ex module_globals lf data p = Inl e"
    by blast
  with Cons show ?thesis by simp
qed

lemma scan_leaves_node:
  "fst (robot_scan_received ex module_globals data s) = s"
proof (cases "initialized s")
  case False
  then show ?thesis
    by (simp add: robot_scan_received_def)
next
  case True
  from particle_loop_module [of ex "likelihood_field s" data "particle_cloud s"]
  obtain r where "particle_loop ex module_globals (likelihood_field s) data (particle_cloud s)
      = (particle_cloud s, r)"
    by blast
  with True show ?thesis
    by (simp add: robot_scan_received_def)
qed

lemma init_ready:
  "initialized (init ex)" "particle_cloud (init ex) \<noteq> []"
  "map w (particle_cloud (init ex)) = [1, 1, 1, 1]"
  by (simp_all add: init_def initialize_particle_cloud_def publish_particle_cloud_def
      initial_particle_set_def new_particle_def split: prod.splits)

lemma tf_signature_rejects:
  "euler_from_quaternion tf_ext (orientation_args p) = Inl TypeError"
  by (simp add: tf_ext_def tf_euler_from_quaternion_def)

lemma tf_scan:
  assumes "initialized s" and "particle_cloud s \<noteq> []"
  shows "robot_scan_received (tf_ext\<lparr>new_LikelihoodField := field\<rparr>) module_globals data s
     = (s, Some TypeError)"
  using scan_aborts [OF assms, where ex = "tf_ext\<lparr>new_LikelihoodField := field\<rparr>" and data = data]
  by (auto simp: tf_signature_rejects)

lemma tf_ext_same: "tf_ext\<lparr>new_LikelihoodField := new_LikelihoodField tf_ext\<rparr> = tf_ext"
  by simp

lemma tf_scan_init:
  "robot_scan_received tf_ext module_globals data (init tf_ext) = (init tf_ext, Some TypeError)"
  using tf_scan [OF init_ready(1) [of tf_ext] init_ready(2) [of tf_ext],
      where field = "new_LikelihoodField tf_ext" and data = data]
  by (simp only: tf_ext_same)

lemma half_weight_scan:
  "robot_scan_received tf_ext module_globals data one_particle_node
     = (one_particle_node, Some TypeError)"
  using tf_scan [where s = one_particle_node and field = "new_LikelihoodField tf_ext" and data = data]
  by (simp only: tf_ext_same one_particle_node_fields) simp

lemma peak_density_not_one: "10 / sqrt (2 * pi) \<noteq> (1::real)"
proof -
  have "2 * pi < 100"
    using pi_less_4 by simp
  then have "sqrt (2 * pi) < sqrt 100"
    by (simp only: real_sqrt_less_iff)
  also have "sqrt 100 = (10::real)"
    by (rule real_sqrt_unique) simp_all
  finally show ?thesis
    by simp
qed

text \<open>
  Claim C2. For every particle and every scan, an empty or fully invalid scan from which
  zero beams are selected included, the measurement update leaves the particle's weight
  equal to its previous weight: with the module's globals and any collaborators the node
  after the update is the node before it. The run below is an empty scan received by a
  node whose one particle has weight 0.5, which it keeps.
\<close>

theorem weights_unchanged_by_scan:
  assumes "robot_scan_received ex module_globals data s = (s', r)"
  shows "s' = s \<and> map w (particle_cloud s') = map w (particle_cloud s)"
proof -
  from assms have "s' = fst (robot_scan_received ex module_globals data s)"
    by simp
  then have "s' = s"
    by (simp only: scan_leaves_node)
  then show ?thesis
    by simp
qed

theorem weights_unchanged_by_scan_witness:
  "robot_scan_received tf_ext module_globals \<lparr>ranges = []\<rparr> one_particle_node
     = (one_particle_node, Some TypeError)
   \<and> map w (particle_cloud one_particle_node) = [1 / 2]
   \<and> map w (particle_cloud (fst (robot_scan_received tf_ext module_globals \<lparr>ranges = []\<rparr>
        one_particle_node))) = [1 / 2]"
proof -
  have run: "robot_scan_received tf_ext module_globals \<lparr>ranges = []\<rparr> one_particle_node
     = (one_particle_node, Some TypeError)"
    by (rule half_weight_scan)
  have before: "map w (particle_cloud one_particle_node) = [1 / 2]"
    by (simp add: one_particle_node_def origin_particle_def)
  from weights_unchanged_by_scan [OF surjective_pairing,
      of tf_ext "\<lparr>ranges = []\<rparr>" one_particle_node]
  have "map w (particle_cloud (fst (robot_scan_received tf_ext module_globals \<lparr>ranges = []\<rparr>
        one_particle_node))) = map w (particle_cloud one_particle_node)"
    by (rule conjunct2)
  with run before show ?thesis
    by (simp only:)
qed

text \<open>
  Claim C3 says that for every scan the update selects every \<open>stride\<close>-th beam over the
  scan's length, skipping invalid and too distant beams. For a scan of one valid beam of
  range 1 that selection is beam 0. The update selects no beam there: the loop header
  names \<^verbatim>\<open>cardinal_directions_idxs\<close>, which the module does not bind (line 132 binds
  \<^verbatim>\<open>direction_idxs\<close>), and the update ends with an error whatever the collaborators are, a
  \<open>TypeError\<close> under the declared signature of the orientation call.
\<close>

theorem beam_selection_never_runs:
  "spec_select_beams 1 (35 / 10) [\<lparr>beam_bearing = 0, beam_range = 1, beam_valid = True\<rparr>] = [0]
   \<and> iterate_global module_globals ''cardinal_directions_idxs''
       = Inl (NameError ''cardinal_directions_idxs'')
   \<and> robot_scan_received tf_ext module_globals \<lparr>ranges = [1]\<rparr> (init tf_ext)
       = (init tf_ext, Some TypeError)
   \<and> (\<forall>ex. \<exists>e. robot_scan_received ex module_globals \<lparr>ranges = [1]\<rparr> (init ex)
          = (init ex, Some e))"
proof -
  have a: "spec_select_beams 1 (35 / 10)
      [\<lparr>beam_bearing = 0, beam_range = 1, beam_valid = True\<rparr>] = [0]"
    by (simp add: spec_select_beams_def)
  have d: "\<exists>e. robot_scan_received ex module_globals \<lparr>ranges = [1]\<rparr> (init ex) = (init ex, Some e)"
    for ex
    using scan_aborts [OF init_ready(1) [of ex] init_ready(2) [of ex],
        where ex = ex and data = "\<lparr>ranges = [1]\<rparr>"] by blast
  from a module_globals_unbound tf_scan_init d show ?thesis
    by blast
qed

text \<open>
  Claim C4 says that the distance field is looked up at the endpoint
  \<open>(x + r cos(heading + \<beta>), y + r sin(heading + \<beta>))\<close> of each selected beam. At the scan
  above the update ends with the \<open>TypeError\<close> whatever field the node has constructed: no
  endpoint is computed and no field is queried.
\<close>

theorem endpoint_lookup_never_made:
  "\<forall>field. robot_scan_received (tf_ext\<lparr>new_LikelihoodField := field\<rparr>) module_globals
      \<lparr>ranges = [1]\<rparr> (init (tf_ext\<lparr>new_LikelihoodField := field\<rparr>))
     = (init (tf_ext\<lparr>new_LikelihoodField := field\<rparr>), Some TypeError)"
proof
  fix field
  show "robot_scan_received (tf_ext\<lparr>new_LikelihoodField := field\<rparr>) module_globals
      \<lparr>ranges = [1]\<rparr> (init (tf_ext\<lparr>new_LikelihoodField := field\<rparr>))
     = (init (tf_ext\<lparr>new_LikelihoodField := field\<rparr>), Some TypeError)"
    by (rule tf_scan [OF init_ready(1) init_ready(2)])
qed

text \<open>
  Claim C5 says that the weight written to a scored particle is the product of the
  per-beam Gaussian densities with standard deviation 0.1. At the scan above, with a field
  that reports distance 0 everywhere, that product is the density at 0, \<open>10/\<surd>(2\<pi>)\<close>, which
  is not 1; the update writes no weight, and the four weights are still 1.
\<close>

theorem no_weight_written:
  "map w (particle_cloud (fst (robot_scan_received tf_ext module_globals \<lparr>ranges = [1]\<rparr>
       (init tf_ext)))) = [1, 1, 1, 1]
   \<and> (\<forall>x y. new_LikelihoodField tf_ext x y = Inr 0)
   \<and> compute_prob_zero_centered_gaussian 0 (1 / 10) = Inr (10 / sqrt (2 * pi))
   \<and> 10 / sqrt (2 * pi) \<noteq> (1::real)"
proof -
  have a: "map w (particle_cloud (fst (robot_scan_received tf_ext module_globals \<lparr>ranges = [1]\<rparr>
       (init tf_ext)))) = [1, 1, 1, 1]"
    by (simp only: scan_leaves_node init_ready(3))
  have b: "\<forall>x y. new_LikelihoodField tf_ext x y = Inr 0"
    by (simp add: tf_ext_def)
  have c: "compute_prob_zero_centered_gaussian 0 (1 / 10) = Inr (10 / sqrt (2 * pi))"
    by (simp add: gaussian_returns)
  from a b c peak_density_not_one show ?thesis
    by (intro conjI)
qed

section \<open>Lines 147--155 as they are written\<close>

text \<open>
  What the beam loop computes when the iterated name is bound and the orientation call
  returns, neither of which the module provides: the weight stored is the product of the
  densities over every index of the collection (1 for an empty collection, see
  \<open>update_particle_no_beams\<close>), and the value of \<^verbatim>\<open>scan_direction\<close>, an index of a sweep in
  degrees, is added to the heading as an angle in radians.
\<close>

lemma update_particle_product:
  assumes "update_particle ex g lf data p = Inr p'"
  shows "\<exists>roll pitch heading idxs ds.
      euler_from_quaternion ex (orientation_args p) = Inr (roll, pitch, heading)
      \<and> iterate_global g ''cardinal_directions_idxs'' = Inr idxs
      \<and> list_all2
          (\<lambda>i d. \<exists>r field. py_index (ranges data) i = Inr r \<and> lf = Some field
             \<and> field (point_x (position (pose p)) + r * cos (heading + real_of_int i))
                     (point_y (position (pose p)) + r * sin (heading + real_of_int i)) = Inr d)
          idxs ds
      \<and> w p' = prod_list
          (map (\<lambda>d. 1 / ((1 / 10) * sqrt (2 * pi)) * exp (- (d ^ 2) / (2 * (1 / 10) ^ 2))) ds)
      \<and> pose p' = pose p"
proof -
  from assms obtain roll pitch heading idxs q where
    euler: "euler_from_quaternion ex (orientation_args p) = Inr (roll, pitch, heading)"
    and iter: "iterate_global g ''cardinal_directions_idxs'' = Inr idxs"
    and loop: "beam_loop lf data (point_x (position (pose p))) (point_y (position (pose p)))
                 heading idxs 1 = Inr q"
    and p': "p' = p\<lparr>w := q\<rparr>"
    unfolding update_particle_Inr_iff by blast
  from loop obtain ps where
    all: "list_all2 (\<lambda>i pr. beam_likelihood lf data (point_x (position (pose p)))
            (point_y (position (pose p))) heading i = Inr pr) idxs ps"
    and q: "q = 1 * prod_list ps"
    unfolding beam_loop_Inr_iff by blast
  let ?Q = "\<lambda>i d. \<exists>r field. py_index (ranges data) i = Inr r \<and> lf = Some field
             \<and> field (point_x (position (pose p)) + r * cos (heading + real_of_int i))
                     (point_y (position (pose p)) + r * sin (heading + real_of_int i)) = Inr d"
  let ?F = "\<lambda>d::real. 1 / ((1 / 10) * sqrt (2 * pi)) * exp (- (d ^ 2) / (2 * (1 / 10) ^ 2))"
  from all have "list_all2 (\<lambda>i pr. \<exists>d. ?Q i d \<and> pr = ?F d) idxs ps"
  proof (rule list_all2_mono)
    fix i pr
    assume "beam_likelihood lf data (point_x (position (pose p)))
            (point_y (position (pose p))) heading i = Inr pr"
    then show "\<exists>d. ?Q i d \<and> pr = ?F d"
      unfolding beam_likelihood_Inr_iff by blast
  qed
  from list_all2_ex_map [OF this] obtain ds where
    ds: "list_all2 ?Q idxs ds" and ps: "ps = map ?F ds"
    by blast
  have "w p' = prod_list (map ?F ds)"
    using p' q ps by simp
  moreover have "pose p' = pose p"
    using p' by simp
  ultimately show ?thesis
    using euler iter ds by blast
qed

lemma cos_index_not_degrees: "cos (1::real) < cos (pi / 180)"
proof (rule cos_monotone_0_pi)
  show "0 \<le> pi / 180" by simp
  show "pi / 180 < 1" using pi_less_4 by simp
  show "(1::real) \<le> pi" using pi_ge_two by simp
qed

lemma scan_direction_taken_as_radians:
  "beam_likelihood (Some (\<lambda>x y. Inr x)) \<lparr>ranges = [1, 1]\<rparr> 0 0 0 1
     = compute_prob_zero_centered_gaussian (cos 1) (1 / 10)
   \<and> cos (1::real) < cos (pi / 180)"
  by (simp add: beam_likelihood_def py_index_def Let_def cos_index_not_degrees)

end
